theory Spec2Isabelle
  imports Main
begin

section \<open>Python values, dictionaries and exceptions\<close>

text \<open>
  The views and the authenticator of \<^verbatim>\<open>embla/users/api\<close> handle JSON-like Python values:
  the fields of \<^verbatim>\<open>request.data\<close> and \<^verbatim>\<open>response.data\<close>. Floats are left out (no field
  the code reads or writes is one).
\<close>

datatype pyval =
    PyNone
  | PyBool bool
  | PyInt int
  | PyStr string
  | PyList "pyval list"
  | PyDict "(string \<times> pyval) list"

text \<open>Python truthiness, as tested by \<^verbatim>\<open>if access_token:\<close>.\<close>

fun truthy :: "pyval \<Rightarrow> bool" where
  "truthy PyNone = False"
| "truthy (PyBool b) = b"
| "truthy (PyInt n) = (n \<noteq> 0)"
| "truthy (PyStr s) = (s \<noteq> [])"
| "truthy (PyList xs) = (xs \<noteq> [])"
| "truthy (PyDict kvs) = (kvs \<noteq> [])"

type_synonym pydict = "string \<rightharpoonup> pyval"

text \<open>\<^verbatim>\<open>d.get(k)\<close>: the value, or \<^verbatim>\<open>None\<close> when the key is missing.\<close>

definition dict_get :: "pydict \<Rightarrow> string \<Rightarrow> pyval" where
  "dict_get d k = (case d k of None \<Rightarrow> PyNone | Some v \<Rightarrow> v)"

text \<open>\<^verbatim>\<open>d.pop(k, None)\<close>, for its effect on the dictionary: never raises.\<close>

definition dict_pop :: "pydict \<Rightarrow> string \<Rightarrow> pydict" where
  "dict_pop d k = d(k := None)"

text \<open>\<^verbatim>\<open>d[k] = v\<close> on a plain dictionary.\<close>

definition dict_setitem :: "pydict \<Rightarrow> string \<Rightarrow> pyval \<Rightarrow> pydict" where
  "dict_setitem d k v = d(k \<mapsto> v)"

text \<open>
  \<^verbatim>\<open>request.COOKIES\<close> maps cookie names to strings: \<^verbatim>\<open>request.COOKIES.get(k)\<close> is that
  string, or \<^verbatim>\<open>None\<close> when the request carries no cookie of that name.
\<close>

definition cookies_get :: "(string \<rightharpoonup> string) \<Rightarrow> string \<Rightarrow> pyval" where
  "cookies_get c k = (case c k of None \<Rightarrow> PyNone | Some s \<Rightarrow> PyStr s)"

text \<open>
  The exceptions that the collaborators, the framework and Python raise.
  \<^verbatim>\<open>except InvalidToken\<close> catches \<open>InvalidToken\<close> alone: \<open>AuthenticationFailed\<close> is its base
  class, not a subclass.
\<close>

datatype exn =
    InvalidToken
  | AuthenticationFailed
  | PermissionDenied
  | MethodNotAllowed
  | ParseError
  | AttributeError
  | TypeError
  | OtherException string

section \<open>Requests, responses and cookies\<close>

text \<open>
  \<^verbatim>\<open>request.data\<close> is what the framework parsed from the body, and item assignment does
  not work on all of it:
  \<^item> a plain \<^verbatim>\<open>dict\<close> (a JSON object, or no body at all) takes the assignment;
  \<^item> a \<^verbatim>\<open>QueryDict\<close> (a form-encoded or multipart body) takes it only when it is mutable,
    and the one the framework builds is not: the assignment raises \<open>AttributeError\<close>;
  \<^item> any other parsed JSON value (a list, a string, a number, a boolean, null) raises
    \<open>TypeError\<close>;
  \<^item> a body that does not parse makes the very read of \<^verbatim>\<open>request.data\<close> raise.
\<close>

datatype json_other =
    JsonList "pyval list"
  | JsonStr string
  | JsonInt int
  | JsonBool bool
  | JsonNull

datatype request_data =
    Dict pydict
  | QueryDict bool pydict
  | NotMapping json_other
  | Unreadable exn

text \<open>\<^verbatim>\<open>request.data[k] = v\<close>.\<close>

fun data_setitem :: "request_data \<Rightarrow> string \<Rightarrow> pyval \<Rightarrow> exn + request_data" where
  "data_setitem (Dict d) k v = Inr (Dict (dict_setitem d k v))"
| "data_setitem (QueryDict mutable d) k v =
     (if mutable then Inr (QueryDict mutable (dict_setitem d k v)) else Inl AttributeError)"
| "data_setitem (NotMapping j) k v = Inl TypeError"
| "data_setitem (Unreadable e) k v = Inl e"

text \<open>The value a mapping body holds under a key, as the Token Issuer reads it.\<close>

fun data_lookup :: "request_data \<Rightarrow> string \<Rightarrow> pyval option" where
  "data_lookup (Dict d) k = d k"
| "data_lookup (QueryDict mutable d) k = d k"
| "data_lookup (NotMapping j) k = None"
| "data_lookup (Unreadable e) k = None"

text \<open>
  A cookie written by \<^verbatim>\<open>response.set_cookie\<close> is recorded with the keyword arguments the
  source passes; \<^verbatim>\<open>response.delete_cookie\<close> is recorded as a deletion. The jar is keyed by
  the cookie's name: a later call for the same name replaces the earlier one.

  \<^verbatim>\<open>request.data\<close> and \<^verbatim>\<open>response.data\<close> are the record fields \<open>request_data\<close> and
  \<open>response_data\<close>; the latter is a dictionary. \<^verbatim>\<open>request.method\<close> is \<open>http_method\<close>, and
  \<^verbatim>\<open>request.META\<close> holds the headers, which the views and the authenticator never read
  themselves.
\<close>

record cookie =
  cookie_value :: pyval
  httponly :: bool
  secure :: bool
  samesite :: string
  max_age :: int

datatype cookie_op = SetCookie cookie | DeleteCookie

record request =
  http_method :: string
  COOKIES :: "string \<rightharpoonup> string"
  request_data :: request_data
  META :: "string \<rightharpoonup> string"

record response =
  status_code :: int
  response_data :: pydict
  cookies :: "string \<rightharpoonup> cookie_op"

definition HTTPStatus_OK :: int where
  "HTTPStatus_OK = 200"

text \<open>\<^verbatim>\<open>Response(data)\<close>: status 200 by default, no cookies.\<close>

definition Response :: "pydict \<Rightarrow> response" where
  "Response d = \<lparr>status_code = 200, response_data = d, cookies = Map.empty\<rparr>"

text \<open>\<^verbatim>\<open>timedelta(days=d, minutes=m).total_seconds()\<close>, a whole number of seconds here.\<close>

definition timedelta_total_seconds :: "int \<Rightarrow> int \<Rightarrow> int" where
  "timedelta_total_seconds days minutes = days * 86400 + minutes * 60"

definition set_cookie ::
  "response \<Rightarrow> string \<Rightarrow> pyval \<Rightarrow> bool \<Rightarrow> bool \<Rightarrow> string \<Rightarrow> int \<Rightarrow> response" where
  "set_cookie response key v ho sec ss ma =
     response\<lparr>cookies := (cookies response)(key \<mapsto>
       SetCookie \<lparr>cookie_value = v, httponly = ho, secure = sec, samesite = ss, max_age = ma\<rparr>)\<rparr>"

definition delete_cookie :: "response \<Rightarrow> string \<Rightarrow> response" where
  "delete_cookie response key = response\<lparr>cookies := (cookies response)(key \<mapsto> DeleteCookie)\<rparr>"

section \<open>The cookie relay: \<^verbatim>\<open>jwt_views.py\<close>\<close>

text \<open>
  \<^verbatim>\<open>super().post(request)\<close> is the Token Issuer's view, a parameter \<open>super_post\<close> of each
  model: it returns a response or raises. \<^verbatim>\<open>settings.DEBUG\<close> is the parameter \<open>DEBUG\<close>.
\<close>

subsection \<open>\<^verbatim>\<open>CookieTokenObtainPairView.post\<close>\<close>

text \<open>Lines 16 to 44: what \<^verbatim>\<open>post\<close> does with the issuer's response.\<close>

definition obtain_pair_relay :: "bool \<Rightarrow> response \<Rightarrow> response" where
  "obtain_pair_relay DEBUG response =
     (if status_code response = HTTPStatus_OK then
        let access_token = dict_get (response_data response) ''access'';
            refresh_token = dict_get (response_data response) ''refresh'';
            response1 =
              (if truthy access_token
               then set_cookie response ''access_token'' access_token True (\<not> DEBUG) ''Strict''
                      (timedelta_total_seconds 0 60)
               else response);
            response2 =
              (if truthy refresh_token
               then set_cookie response1 ''refresh_token'' refresh_token True (\<not> DEBUG) ''Strict''
                      (timedelta_total_seconds 1 0)
               else response1);
            response3 = response2\<lparr>response_data := dict_pop (response_data response2) ''access''\<rparr>;
            response4 = response3\<lparr>response_data := dict_pop (response_data response3) ''refresh''\<rparr>
        in response4\<lparr>response_data :=
             dict_setitem (response_data response4) ''detail'' (PyStr ''Login successful'')\<rparr>
      else response)"

definition CookieTokenObtainPairView_post ::
  "bool \<Rightarrow> (request \<Rightarrow> exn + response) \<Rightarrow> request \<Rightarrow> exn + response" where
  "CookieTokenObtainPairView_post DEBUG super_post request =
     (case super_post request of
        Inl e \<Rightarrow> Inl e
      | Inr response \<Rightarrow> Inr (obtain_pair_relay DEBUG response))"

text \<open>
  Modelled from the spec: a token. The Token Issuer's code is the token library's, not the
  repository's; the spec has a token as an opaque signed string, so a value is a token when
  it is a non-empty string.
\<close>

fun is_token :: "pyval \<Rightarrow> bool" where
  "is_token (PyStr s) = (s \<noteq> [])"
| "is_token v = False"

text \<open>
  Modelled from the spec: the Token Issuer's answer to good credentials. The spec has it that
  the issuer, given credentials, produces an access token and a refresh token: the body of its
  response of status OK holds a token under \<open>access\<close> and a token under \<open>refresh\<close>.
\<close>

definition holds_token_pair :: "response \<Rightarrow> bool" where
  "holds_token_pair response =
     (is_token (dict_get (response_data response) ''access'')
      \<and> is_token (dict_get (response_data response) ''refresh''))"

subsection \<open>\<^verbatim>\<open>CookieTokenRefreshView.post\<close>\<close>

text \<open>
  Lines 52 to 54: the request handed to \<^verbatim>\<open>super().post\<close>, or the exception that the
  assignment of line 54 raises.
\<close>

definition refresh_forwarded :: "request \<Rightarrow> exn + request" where
  "refresh_forwarded request =
     (let refresh_token = cookies_get (COOKIES request) ''refresh_token'' in
      if truthy refresh_token
      then (case data_setitem (request_data request) ''refresh'' refresh_token of
              Inl e \<Rightarrow> Inl e
            | Inr data \<Rightarrow> Inr (request\<lparr>request_data := data\<rparr>))
      else Inr request)"

text \<open>Lines 58 to 75.\<close>

definition refresh_relay :: "bool \<Rightarrow> response \<Rightarrow> response" where
  "refresh_relay DEBUG response =
     (if status_code response = HTTPStatus_OK then
        let access_token = dict_get (response_data response) ''access'';
            response1 =
              (if truthy access_token
               then set_cookie response ''access_token'' access_token True (\<not> DEBUG) ''Strict''
                      (timedelta_total_seconds 0 60)
               else response);
            response2 = response1\<lparr>response_data := dict_pop (response_data response1) ''access''\<rparr>
        in response2\<lparr>response_data :=
             dict_setitem (response_data response2) ''detail'' (PyStr ''Token refreshed'')\<rparr>
      else response)"

definition CookieTokenRefreshView_post ::
  "bool \<Rightarrow> (request \<Rightarrow> exn + response) \<Rightarrow> request \<Rightarrow> exn + response" where
  "CookieTokenRefreshView_post DEBUG super_post request =
     (case refresh_forwarded request of
        Inl e \<Rightarrow> Inl e
      | Inr request' \<Rightarrow>
          (case super_post request' of
             Inl e \<Rightarrow> Inl e
           | Inr response \<Rightarrow> Inr (refresh_relay DEBUG response)))"

subsection \<open>\<^verbatim>\<open>CookieTokenVerifyView.post\<close>\<close>

text \<open>
  Lines 83 to 85: the request handed to \<^verbatim>\<open>super().post\<close>, or the exception that the
  assignment of line 85 raises.
\<close>

definition verify_forwarded :: "request \<Rightarrow> exn + request" where
  "verify_forwarded request =
     (let access_token = cookies_get (COOKIES request) ''access_token'' in
      if truthy access_token
      then (case data_setitem (request_data request) ''token'' access_token of
              Inl e \<Rightarrow> Inl e
            | Inr data \<Rightarrow> Inr (request\<lparr>request_data := data\<rparr>))
      else Inr request)"

definition CookieTokenVerifyView_post ::
  "(request \<Rightarrow> exn + response) \<Rightarrow> request \<Rightarrow> exn + response" where
  "CookieTokenVerifyView_post super_post request =
     (case verify_forwarded request of
        Inl e \<Rightarrow> Inl e
      | Inr request' \<Rightarrow> super_post request')"

section \<open>The cookie authenticator: \<^verbatim>\<open>authentication.py\<close>\<close>

text \<open>
  \<^verbatim>\<open>super().authenticate\<close> (the header-based resolution), \<^verbatim>\<open>get_validated_token\<close> and
  \<^verbatim>\<open>get_user\<close> belong to the Token Issuer and are parameters. An identity is the pair
  of a user and a validated token; \<^verbatim>\<open>None\<close> is the anonymous request.
\<close>

definition authenticate ::
  "(request \<Rightarrow> exn + ('u \<times> 't) option) \<Rightarrow> (pyval \<Rightarrow> exn + 't) \<Rightarrow> ('t \<Rightarrow> exn + 'u) \<Rightarrow>
     request \<Rightarrow> exn + ('u \<times> 't) option" where
  "authenticate super_authenticate get_validated_token get_user request =
     (let access_token = cookies_get (COOKIES request) ''access_token'' in
      if \<not> truthy access_token then super_authenticate request
      else
        (case get_validated_token access_token of
           Inl e \<Rightarrow> (if e = InvalidToken then Inr None else Inl e)
         | Inr validated_token \<Rightarrow>
             (case get_user validated_token of
                Inl e \<Rightarrow> (if e = InvalidToken then Inr None else Inl e)
              | Inr user \<Rightarrow> Inr (Some (user, validated_token)))))"

section \<open>Logout: \<^verbatim>\<open>views.py\<close>\<close>

text \<open>The body of \<^verbatim>\<open>logout\<close>, lines 42 to 47. It reads nothing of the request.\<close>

definition logout :: "request \<Rightarrow> response" where
  "logout request =
     (let response = Response [''detail'' \<mapsto> PyStr ''Logged out''];
          response1 = delete_cookie response ''access_token'';
          response2 = delete_cookie response1 ''refresh_token''
      in response2)"

text \<open>\<^verbatim>\<open>AllowAny\<close> of line 41: the permission that refuses no request.\<close>

definition AllowAny :: "request \<Rightarrow> bool" where
  "AllowAny request = True"

text \<open>
  The view that the decorators of lines 40 and 41 make of \<^verbatim>\<open>logout\<close>. Before the body
  runs, the framework negotiates the content, authenticates the request with the configured
  authentication classes and applies the throttles: this is the parameter \<open>initial\<close>, which
  raises or lets the request through, and which may read and change the server's state
  \<open>db\<close>. The permission check follows authentication. Then the method is dispatched:
  \<^verbatim>\<open>api_view\<close> with the method list of line 40 routes \<open>POST\<close> to the body, leaves \<open>OPTIONS\<close> to the framework's own
  handler (the parameter \<open>options\<close>) and refuses every other method. An exception raised on
  the way is turned into the error response by the framework's handler (the parameter
  \<open>handle_exception\<close>). The body takes no state and returns none: the state after the view
  is the one \<open>initial\<close> left.
\<close>

definition logout_view ::
  "('db \<Rightarrow> request \<Rightarrow> exn option \<times> 'db) \<Rightarrow> (exn \<Rightarrow> response) \<Rightarrow> (request \<Rightarrow> response) \<Rightarrow>
     'db \<Rightarrow> request \<Rightarrow> response \<times> 'db" where
  "logout_view initial handle_exception options db request =
     (case initial db request of
        (Some e, db') \<Rightarrow> (handle_exception e, db')
      | (None, db') \<Rightarrow>
          if \<not> AllowAny request then (handle_exception PermissionDenied, db')
          else if http_method request = ''POST'' then (logout request, db')
          else if http_method request = ''OPTIONS'' then (options request, db')
          else (handle_exception MethodNotAllowed, db'))"

section \<open>Example collaborators and requests\<close>

text \<open>Concrete Token Issuers and requests, on which the theorems below are run.\<close>

definition login_request :: request where
  "login_request =
     \<lparr>http_method = ''POST'',
      COOKIES = Map.empty,
      request_data = Dict [''username'' \<mapsto> PyStr ''alice'', ''password'' \<mapsto> PyStr ''pw''],
      META = Map.empty\<rparr>"

text \<open>An issuer that refuses the credentials with a response of status 401.\<close>

definition issuer_rejects :: "request \<Rightarrow> exn + response" where
  "issuer_rejects request =
     Inr \<lparr>status_code = 401,
          response_data = [''detail'' \<mapsto> PyStr ''No active account''],
          cookies = Map.empty\<rparr>"

text \<open>An issuer that grants a token pair.\<close>

definition issuer_grants :: "request \<Rightarrow> exn + response" where
  "issuer_grants request =
     Inr \<lparr>status_code = 200,
          response_data = [''access'' \<mapsto> PyStr ''A1'', ''refresh'' \<mapsto> PyStr ''R1''],
          cookies = Map.empty\<rparr>"

text \<open>An issuer whose response of status 200 carries a refresh token and no access token.\<close>

definition issuer_omits_access :: "request \<Rightarrow> exn + response" where
  "issuer_omits_access request =
     Inr \<lparr>status_code = 200,
          response_data = [''refresh'' \<mapsto> PyStr ''R1''],
          cookies = Map.empty\<rparr>"

text \<open>
  A refreshing issuer that rotates refresh tokens: given the refresh token \<open>R1\<close> in the
  body, it answers with a new access token and a new refresh token; anything else is
  refused with status 401.
\<close>

definition issuer_rotates :: "request \<Rightarrow> exn + response" where
  "issuer_rotates request =
     (if data_lookup (request_data request) ''refresh'' = Some (PyStr ''R1'')
      then Inr \<lparr>status_code = 200,
                response_data = [''access'' \<mapsto> PyStr ''A2'', ''refresh'' \<mapsto> PyStr ''R2''],
                cookies = Map.empty\<rparr>
      else Inr \<lparr>status_code = 401,
                response_data = [''detail'' \<mapsto> PyStr ''Token is invalid or expired''],
                cookies = Map.empty\<rparr>)"

text \<open>A refreshing issuer whose response of status 200 carries an empty access token.\<close>

definition issuer_empty_access :: "request \<Rightarrow> exn + response" where
  "issuer_empty_access request =
     Inr \<lparr>status_code = 200,
          response_data = [''access'' \<mapsto> PyStr []],
          cookies = Map.empty\<rparr>"

text \<open>A request that carries the refresh token \<open>R1\<close> as a cookie and an empty body.\<close>

definition refresh_cookie_request :: request where
  "refresh_cookie_request =
     \<lparr>http_method = ''POST'',
      COOKIES = [''refresh_token'' \<mapsto> ''R1''],
      request_data = Dict Map.empty,
      META = Map.empty\<rparr>"

text \<open>
  A request whose token cookies are empty strings, with tokens in its JSON body and a
  bearer token in its header.
\<close>

definition empty_cookie_request :: request where
  "empty_cookie_request =
     \<lparr>http_method = ''POST'',
      COOKIES = [''access_token'' \<mapsto> [], ''refresh_token'' \<mapsto> []],
      request_data = Dict [''token'' \<mapsto> PyStr ''T0'', ''refresh'' \<mapsto> PyStr ''R0''],
      META = [''HTTP_AUTHORIZATION'' \<mapsto> ''Bearer good'']\<rparr>"

text \<open>A request with both token cookies set, and other tokens in its JSON body.\<close>

definition cookie_request :: request where
  "cookie_request =
     \<lparr>http_method = ''POST'',
      COOKIES = [''access_token'' \<mapsto> ''stale'', ''refresh_token'' \<mapsto> ''R1''],
      request_data = Dict [''token'' \<mapsto> PyStr ''T0'', ''refresh'' \<mapsto> PyStr ''R0''],
      META = Map.empty\<rparr>"

text \<open>The same cookies on a form-encoded body, which the framework parses into an immutable
  \<^verbatim>\<open>QueryDict\<close>.\<close>

definition form_cookie_request :: request where
  "form_cookie_request =
     \<lparr>http_method = ''POST'',
      COOKIES = [''access_token'' \<mapsto> ''stale'', ''refresh_token'' \<mapsto> ''R1''],
      request_data = QueryDict False [''token'' \<mapsto> PyStr ''T0'', ''refresh'' \<mapsto> PyStr ''R0''],
      META = Map.empty\<rparr>"

text \<open>A request without cookies whose header bears a token that no longer verifies.\<close>

definition stale_bearer_request :: request where
  "stale_bearer_request =
     \<lparr>http_method = ''POST'',
      COOKIES = Map.empty,
      request_data = Dict Map.empty,
      META = [''HTTP_AUTHORIZATION'' \<mapsto> ''Bearer stale'']\<rparr>"

text \<open>
  A token validator that accepts the tokens \<open>good\<close>, \<open>orphan\<close> and \<open>nameless\<close>, fails with
  another error on the token \<open>down\<close> and judges every other token invalid; a user resolver
  that knows the user of \<open>good\<close>, finds no user identification in \<open>nameless\<close> (an invalid
  token) and no user for any other token; and a header-based resolution that reads the
  bearer token.
\<close>

definition validate_example :: "pyval \<Rightarrow> exn + string" where
  "validate_example raw_token =
     (if raw_token = PyStr ''good'' then Inr ''good''
      else if raw_token = PyStr ''orphan'' then Inr ''orphan''
      else if raw_token = PyStr ''nameless'' then Inr ''nameless''
      else if raw_token = PyStr ''down'' then Inl (OtherException ''backend unavailable'')
      else Inl InvalidToken)"

definition user_example :: "string \<Rightarrow> exn + string" where
  "user_example validated_token =
     (if validated_token = ''good'' then Inr ''alice''
      else if validated_token = ''nameless'' then Inl InvalidToken
      else Inl AuthenticationFailed)"

definition header_example :: "request \<Rightarrow> exn + (string \<times> string) option" where
  "header_example request =
     (case META request ''HTTP_AUTHORIZATION'' of
        None \<Rightarrow> Inr None
      | Some h \<Rightarrow> if h = ''Bearer good'' then Inr (Some (''alice'', ''good'')) else Inl InvalidToken)"

text \<open>
  The framework's part of the logout view, with the cookie authenticator as the configured
  authentication class: the checks ahead of the body, which leave the state (a count of
  served requests, say) as it is; the error responses; and the answer to \<open>OPTIONS\<close>.
\<close>

definition initial_example :: "nat \<Rightarrow> request \<Rightarrow> exn option \<times> nat" where
  "initial_example db request =
     (case authenticate header_example validate_example user_example request of
        Inl e \<Rightarrow> (Some e, db)
      | Inr identity \<Rightarrow> (None, db))"

definition handle_exception_example :: "exn \<Rightarrow> response" where
  "handle_exception_example e =
     \<lparr>status_code =
        (if e = InvalidToken \<or> e = AuthenticationFailed then 401
         else if e = PermissionDenied then 403
         else if e = MethodNotAllowed then 405
         else if e = ParseError then 400
         else 500),
      response_data = [''detail'' \<mapsto> PyStr ''refused''],
      cookies = Map.empty\<rparr>"

definition options_example :: "request \<Rightarrow> response" where
  "options_example request = Response [''name'' \<mapsto> PyStr ''Logout'']"

section \<open>Basic facts\<close>

lemma dict_get_simps [simp]:
  "d k = None \<Longrightarrow> dict_get d k = PyNone"
  "d k = Some v \<Longrightarrow> dict_get d k = v"
  by (simp_all add: dict_get_def)

lemma cookies_get_simps [simp]:
  "c k = None \<Longrightarrow> cookies_get c k = PyNone"
  "c k = Some s \<Longrightarrow> cookies_get c k = PyStr s"
  by (simp_all add: cookies_get_def)

lemma truthy_cookies_get:
  "truthy (cookies_get c k) \<longleftrightarrow> (\<exists>s. c k = Some s \<and> s \<noteq> [])"
  by (cases "c k") (simp_all add: cookies_get_def)

lemma is_token_truthy:
  "is_token v \<Longrightarrow> truthy v"
  by (cases v) simp_all

section \<open>The relays, field by field\<close>

lemma obtain_pair_relay_non_ok:
  "status_code response \<noteq> HTTPStatus_OK \<Longrightarrow> obtain_pair_relay DEBUG response = response"
  by (simp add: obtain_pair_relay_def)

lemma obtain_pair_relay_status:
  "status_code (obtain_pair_relay DEBUG response) = status_code response"
  by (simp add: obtain_pair_relay_def Let_def set_cookie_def)

lemma obtain_pair_relay_data:
  "status_code response = HTTPStatus_OK \<Longrightarrow>
   response_data (obtain_pair_relay DEBUG response) =
     (response_data response)(''access'' := None, ''refresh'' := None,
        ''detail'' \<mapsto> PyStr ''Login successful'')"
  by (simp add: obtain_pair_relay_def Let_def set_cookie_def dict_pop_def dict_setitem_def)

lemma obtain_pair_relay_cookies:
  "status_code response = HTTPStatus_OK \<Longrightarrow>
   cookies (obtain_pair_relay DEBUG response) key =
     (if key = ''refresh_token'' \<and> truthy (dict_get (response_data response) ''refresh'')
      then Some (SetCookie \<lparr>cookie_value = dict_get (response_data response) ''refresh'',
             httponly = True, secure = (\<not> DEBUG), samesite = ''Strict'', max_age = 86400\<rparr>)
      else if key = ''access_token'' \<and> truthy (dict_get (response_data response) ''access'')
      then Some (SetCookie \<lparr>cookie_value = dict_get (response_data response) ''access'',
             httponly = True, secure = (\<not> DEBUG), samesite = ''Strict'', max_age = 3600\<rparr>)
      else cookies response key)"
  by (simp add: obtain_pair_relay_def Let_def set_cookie_def timedelta_total_seconds_def)

lemma refresh_relay_non_ok:
  "status_code response \<noteq> HTTPStatus_OK \<Longrightarrow> refresh_relay DEBUG response = response"
  by (simp add: refresh_relay_def)

lemma refresh_relay_status:
  "status_code (refresh_relay DEBUG response) = status_code response"
  by (simp add: refresh_relay_def Let_def set_cookie_def)

lemma refresh_relay_data:
  "status_code response = HTTPStatus_OK \<Longrightarrow>
   response_data (refresh_relay DEBUG response) =
     (response_data response)(''access'' := None, ''detail'' \<mapsto> PyStr ''Token refreshed'')"
  by (simp add: refresh_relay_def Let_def set_cookie_def dict_pop_def dict_setitem_def)

lemma refresh_relay_cookies:
  "status_code response = HTTPStatus_OK \<Longrightarrow>
   cookies (refresh_relay DEBUG response) key =
     (if key = ''access_token'' \<and> truthy (dict_get (response_data response) ''access'')
      then Some (SetCookie \<lparr>cookie_value = dict_get (response_data response) ''access'',
             httponly = True, secure = (\<not> DEBUG), samesite = ''Strict'', max_age = 3600\<rparr>)
      else cookies response key)"
  by (simp add: refresh_relay_def Let_def set_cookie_def timedelta_total_seconds_def)

lemma refresh_post_forwarded:
  "refresh_forwarded request = Inr request' \<Longrightarrow> super_post request' = Inr response \<Longrightarrow>
   CookieTokenRefreshView_post DEBUG super_post request = Inr (refresh_relay DEBUG response)"
  by (simp add: CookieTokenRefreshView_post_def)

text \<open>The relays on the example issuers.\<close>

lemma refresh_cookie_request_forwarded:
  "refresh_forwarded refresh_cookie_request =
     Inr (refresh_cookie_request\<lparr>request_data := Dict [''refresh'' \<mapsto> PyStr ''R1'']\<rparr>)"
  by (simp add: refresh_forwarded_def refresh_cookie_request_def dict_setitem_def)

lemma issue_grants_eval:
  "CookieTokenObtainPairView_post DEBUG issuer_grants login_request =
     Inr \<lparr>status_code = 200,
          response_data = [''detail'' \<mapsto> PyStr ''Login successful''],
          cookies = [''access_token'' \<mapsto> SetCookie \<lparr>cookie_value = PyStr ''A1'', httponly = True,
                       secure = (\<not> DEBUG), samesite = ''Strict'', max_age = 3600\<rparr>,
                     ''refresh_token'' \<mapsto> SetCookie \<lparr>cookie_value = PyStr ''R1'', httponly = True,
                       secure = (\<not> DEBUG), samesite = ''Strict'', max_age = 86400\<rparr>]\<rparr>"
  by (auto simp add: CookieTokenObtainPairView_post_def issuer_grants_def obtain_pair_relay_def
      HTTPStatus_OK_def Let_def set_cookie_def dict_pop_def dict_setitem_def dict_get_def
      timedelta_total_seconds_def fun_eq_iff)

lemma refresh_rotates_eval:
  "CookieTokenRefreshView_post DEBUG issuer_rotates refresh_cookie_request =
     Inr \<lparr>status_code = 200,
          response_data = [''refresh'' \<mapsto> PyStr ''R2'', ''detail'' \<mapsto> PyStr ''Token refreshed''],
          cookies = [''access_token'' \<mapsto> SetCookie \<lparr>cookie_value = PyStr ''A2'', httponly = True,
                       secure = (\<not> DEBUG), samesite = ''Strict'', max_age = 3600\<rparr>]\<rparr>"
  by (auto simp add: CookieTokenRefreshView_post_def issuer_rotates_def refresh_relay_def
      refresh_cookie_request_forwarded
      HTTPStatus_OK_def Let_def set_cookie_def dict_pop_def dict_setitem_def dict_get_def
      timedelta_total_seconds_def fun_eq_iff)

section \<open>The authenticator and the forwarded requests, case by case\<close>

lemma authenticate_with_cookie:
  assumes "COOKIES request ''access_token'' = Some tok" and "tok \<noteq> []"
  shows "authenticate super_authenticate get_validated_token get_user request =
     (case get_validated_token (PyStr tok) of
        Inl e \<Rightarrow> (if e = InvalidToken then Inr None else Inl e)
      | Inr validated_token \<Rightarrow>
          (case get_user validated_token of
             Inl e \<Rightarrow> (if e = InvalidToken then Inr None else Inl e)
           | Inr user \<Rightarrow> Inr (Some (user, validated_token))))"
  using assms by (simp add: authenticate_def)

lemma authenticate_without_cookie:
  assumes "COOKIES request ''access_token'' = None \<or> COOKIES request ''access_token'' = Some []"
  shows "authenticate super_authenticate get_validated_token get_user request =
           super_authenticate request"
  using assms by (auto simp add: authenticate_def)

lemma refresh_forwarded_cookie:
  "COOKIES request ''refresh_token'' = Some tok \<Longrightarrow> tok \<noteq> [] \<Longrightarrow>
   refresh_forwarded request =
     (case data_setitem (request_data request) ''refresh'' (PyStr tok) of
        Inl e \<Rightarrow> Inl e
      | Inr data \<Rightarrow> Inr (request\<lparr>request_data := data\<rparr>))"
  by (simp add: refresh_forwarded_def)

lemma refresh_forwarded_no_cookie:
  "COOKIES request ''refresh_token'' = None \<or> COOKIES request ''refresh_token'' = Some [] \<Longrightarrow>
   refresh_forwarded request = Inr request"
  by (auto simp add: refresh_forwarded_def)

lemma verify_forwarded_cookie:
  "COOKIES request ''access_token'' = Some tok \<Longrightarrow> tok \<noteq> [] \<Longrightarrow>
   verify_forwarded request =
     (case data_setitem (request_data request) ''token'' (PyStr tok) of
        Inl e \<Rightarrow> Inl e
      | Inr data \<Rightarrow> Inr (request\<lparr>request_data := data\<rparr>))"
  by (simp add: verify_forwarded_def)

lemma verify_forwarded_no_cookie:
  "COOKIES request ''access_token'' = None \<or> COOKIES request ''access_token'' = Some [] \<Longrightarrow>
   verify_forwarded request = Inr request"
  by (auto simp add: verify_forwarded_def)

text \<open>
  With a non-empty cookie, a body that does not take the assignment makes it raise, and the
  view raises with it before the issuer is called: on the immutable \<^verbatim>\<open>QueryDict\<close> of a
  form-encoded request, on a JSON body that is not an object, on a body that does not parse.
\<close>

lemma refresh_forwarded_raises:
  assumes "COOKIES request ''refresh_token'' = Some tok" and "tok \<noteq> []"
  shows "request_data request = QueryDict False d \<Longrightarrow>
           refresh_forwarded request = Inl AttributeError"
    and "request_data request = NotMapping j \<Longrightarrow> refresh_forwarded request = Inl TypeError"
    and "request_data request = Unreadable e \<Longrightarrow> refresh_forwarded request = Inl e"
  using assms by (simp_all add: refresh_forwarded_cookie)

lemma verify_forwarded_raises:
  assumes "COOKIES request ''access_token'' = Some tok" and "tok \<noteq> []"
  shows "request_data request = QueryDict False d \<Longrightarrow>
           verify_forwarded request = Inl AttributeError"
    and "request_data request = NotMapping j \<Longrightarrow> verify_forwarded request = Inl TypeError"
    and "request_data request = Unreadable e \<Longrightarrow> verify_forwarded request = Inl e"
  using assms by (simp_all add: verify_forwarded_cookie)

lemma refresh_post_raises:
  "refresh_forwarded request = Inl e \<Longrightarrow>
   CookieTokenRefreshView_post DEBUG super_post request = Inl e"
  by (simp add: CookieTokenRefreshView_post_def)

lemma verify_post_raises:
  "verify_forwarded request = Inl e \<Longrightarrow> CookieTokenVerifyView_post super_post request = Inl e"
  by (simp add: CookieTokenVerifyView_post_def)


lemma refresh_raises_on_immutable_form:
  "CookieTokenRefreshView_post DEBUG super_post form_cookie_request = Inl AttributeError"
  by (simp add: CookieTokenRefreshView_post_def refresh_forwarded_def form_cookie_request_def)

lemma verify_raises_on_immutable_form:
  "CookieTokenVerifyView_post super_post form_cookie_request = Inl AttributeError"
  by (simp add: CookieTokenVerifyView_post_def verify_forwarded_def form_cookie_request_def)

section \<open>The claims\<close>

text \<open>
  Claim C1. When the Token Issuer answers an issuance request with status OK, its body
  holding the token pair that the issuer produces, the returned body has no \<open>access\<close> and
  no \<open>refresh\<close> field and its \<open>detail\<close> is \<open>Login successful\<close>; and both the
  \<open>access_token\<close> and the \<open>refresh_token\<close> cookie are set, \<open>httponly\<close>, with \<open>samesite\<close>
  \<open>Strict\<close>, holding the token values read from the issuer's body.
\<close>

theorem issue_success_moves_tokens_to_cookies:
  assumes "super_post request = Inr response"
      and "status_code response = HTTPStatus_OK"
      and "holds_token_pair response"
  shows "\<exists>r. CookieTokenObtainPairView_post DEBUG super_post request = Inr r
            \<and> status_code r = HTTPStatus_OK
            \<and> response_data r ''access'' = None
            \<and> response_data r ''refresh'' = None
            \<and> response_data r ''detail'' = Some (PyStr ''Login successful'')
            \<and> (\<exists>c. cookies r ''access_token'' = Some (SetCookie c)
                    \<and> httponly c \<and> samesite c = ''Strict''
                    \<and> cookie_value c = dict_get (response_data response) ''access'')
            \<and> (\<exists>c. cookies r ''refresh_token'' = Some (SetCookie c)
                    \<and> httponly c \<and> samesite c = ''Strict''
                    \<and> cookie_value c = dict_get (response_data response) ''refresh'')"
proof -
  from assms(3) have "truthy (dict_get (response_data response) ''access'')"
    and "truthy (dict_get (response_data response) ''refresh'')"
    by (simp_all add: holds_token_pair_def is_token_truthy)
  with assms(1,2) show ?thesis
    by (simp add: CookieTokenObtainPairView_post_def obtain_pair_relay_status
        obtain_pair_relay_data obtain_pair_relay_cookies)
qed

text \<open>
  The theorem of C1 at an issuer that grants the tokens \<open>A1\<close> and \<open>R1\<close>.
\<close>

theorem issue_success_moves_tokens_to_cookies_witness:
  "holds_token_pair \<lparr>status_code = 200,
       response_data = [''access'' \<mapsto> PyStr ''A1'', ''refresh'' \<mapsto> PyStr ''R1''],
       cookies = Map.empty\<rparr>
   \<and> (\<exists>r. CookieTokenObtainPairView_post False issuer_grants login_request = Inr r
      \<and> status_code r = 200
      \<and> response_data r ''access'' = None
      \<and> response_data r ''refresh'' = None
      \<and> response_data r ''detail'' = Some (PyStr ''Login successful'')
      \<and> (\<exists>c. cookies r ''access_token'' = Some (SetCookie c)
            \<and> httponly c \<and> samesite c = ''Strict'' \<and> cookie_value c = PyStr ''A1'')
      \<and> (\<exists>c. cookies r ''refresh_token'' = Some (SetCookie c)
            \<and> httponly c \<and> samesite c = ''Strict'' \<and> cookie_value c = PyStr ''R1''))"
  using issue_success_moves_tokens_to_cookies [of issuer_grants login_request
     "\<lparr>status_code = 200,
          response_data = [''access'' \<mapsto> PyStr ''A1'', ''refresh'' \<mapsto> PyStr ''R1''],
          cookies = Map.empty\<rparr>" False]
  by (simp add: issuer_grants_def HTTPStatus_OK_def holds_token_pair_def)

text \<open>
  Claim C2. The code at the input where the claim breaks: a Token Issuer that rotates refresh
  tokens answers a refresh with status 200 and the body \<open>{access: A2, refresh: R2}\<close>.
  \<^verbatim>\<open>CookieTokenRefreshView.post\<close> pops \<open>access\<close> alone (line 72), so the new refresh token
  \<open>R2\<close> stays in the returned body, and no \<open>refresh_token\<close> cookie is written for it.
  \<^verbatim>\<open>CookieTokenObtainPairView.post\<close> pops both fields (lines 40 and 41).
\<close>

theorem refresh_leaves_rotated_refresh_token_in_body:
  "CookieTokenRefreshView_post False issuer_rotates refresh_cookie_request =
     Inr \<lparr>status_code = 200,
          response_data = [''refresh'' \<mapsto> PyStr ''R2'', ''detail'' \<mapsto> PyStr ''Token refreshed''],
          cookies = [''access_token'' \<mapsto> SetCookie \<lparr>cookie_value = PyStr ''A2'', httponly = True,
                       secure = True, samesite = ''Strict'', max_age = 3600\<rparr>]\<rparr>"
  by (simp add: refresh_rotates_eval)

text \<open>
  Claim C3, as amended. For a request that carries a non-empty \<open>access_token\<close> cookie:
  when the Token Issuer judges the token invalid or expired, that is when
  \<^verbatim>\<open>get_validated_token\<close> or, after it, \<^verbatim>\<open>get_user\<close> raises \<open>InvalidToken\<close>,
  \<^verbatim>\<open>authenticate\<close> returns no identity and raises nothing; every other failure of
  \<^verbatim>\<open>get_validated_token\<close> or of \<^verbatim>\<open>get_user\<close> propagates to the caller; a token that
  validates and resolves gives the pair of its user and itself; and the anonymous result
  comes from an \<open>InvalidToken\<close> of one of the two and from nothing else.
\<close>

theorem authenticate_swallows_invalid_token_only:
  assumes "COOKIES request ''access_token'' = Some tok" and "tok \<noteq> []"
  shows "(get_validated_token (PyStr tok) = Inl InvalidToken \<longrightarrow>
            authenticate super_authenticate get_validated_token get_user request = Inr None)
       \<and> (\<forall>t. get_validated_token (PyStr tok) = Inr t \<and> get_user t = Inl InvalidToken \<longrightarrow>
            authenticate super_authenticate get_validated_token get_user request = Inr None)
       \<and> (\<forall>e. get_validated_token (PyStr tok) = Inl e \<and> e \<noteq> InvalidToken \<longrightarrow>
            authenticate super_authenticate get_validated_token get_user request = Inl e)
       \<and> (\<forall>t e. get_validated_token (PyStr tok) = Inr t \<and> get_user t = Inl e \<and> e \<noteq> InvalidToken \<longrightarrow>
            authenticate super_authenticate get_validated_token get_user request = Inl e)
       \<and> (\<forall>t u. get_validated_token (PyStr tok) = Inr t \<and> get_user t = Inr u \<longrightarrow>
            authenticate super_authenticate get_validated_token get_user request = Inr (Some (u, t)))
       \<and> (authenticate super_authenticate get_validated_token get_user request = Inr None \<longrightarrow>
            get_validated_token (PyStr tok) = Inl InvalidToken
            \<or> (\<exists>t. get_validated_token (PyStr tok) = Inr t \<and> get_user t = Inl InvalidToken))"
  unfolding authenticate_with_cookie [OF assms]
  by (auto split: sum.splits)

text \<open>
  The theorem of C3 at a stale token and at a token without user identification (both
  anonymous), at a token on which validation fails with another error and at a valid token
  whose user is unknown (both errors propagate), and at a good token.
\<close>

theorem authenticate_swallows_invalid_token_only_witness:
  "authenticate header_example validate_example user_example cookie_request = Inr None
   \<and> authenticate header_example validate_example user_example
       (cookie_request\<lparr>COOKIES := [''access_token'' \<mapsto> ''nameless'']\<rparr>)
       = Inr None
   \<and> authenticate header_example validate_example user_example
       (cookie_request\<lparr>COOKIES := [''access_token'' \<mapsto> ''down'']\<rparr>)
       = Inl (OtherException ''backend unavailable'')
   \<and> authenticate header_example validate_example user_example
       (cookie_request\<lparr>COOKIES := [''access_token'' \<mapsto> ''orphan'']\<rparr>)
       = Inl AuthenticationFailed
   \<and> authenticate header_example validate_example user_example
       (cookie_request\<lparr>COOKIES := [''access_token'' \<mapsto> ''good'']\<rparr>)
       = Inr (Some (''alice'', ''good''))"
  using authenticate_swallows_invalid_token_only
          [of cookie_request "''stale''" validate_example header_example user_example]
        authenticate_swallows_invalid_token_only
          [of "cookie_request\<lparr>COOKIES := [''access_token'' \<mapsto> ''nameless'']\<rparr>" "''nameless''"
              validate_example header_example user_example]
        authenticate_swallows_invalid_token_only
          [of "cookie_request\<lparr>COOKIES := [''access_token'' \<mapsto> ''down'']\<rparr>" "''down''"
              validate_example header_example user_example]
        authenticate_swallows_invalid_token_only
          [of "cookie_request\<lparr>COOKIES := [''access_token'' \<mapsto> ''orphan'']\<rparr>" "''orphan''"
              validate_example header_example user_example]
        authenticate_swallows_invalid_token_only
          [of "cookie_request\<lparr>COOKIES := [''access_token'' \<mapsto> ''good'']\<rparr>" "''good''"
              validate_example header_example user_example]
  by (simp add: cookie_request_def validate_example_def user_example_def)

text \<open>
  Claim C3 as stated fails for an \<open>access_token\<close> cookie that is the empty string, which
  the issuer judges invalid: \<^verbatim>\<open>if not access_token\<close> (line 12) sends the request to the
  header-based resolution, whose identity is returned, and whose \<open>InvalidToken\<close> is raised
  to the caller (it is outside the \<^verbatim>\<open>try\<close>).
\<close>

theorem authenticate_empty_cookie_counterexample:
  "COOKIES empty_cookie_request ''access_token'' = Some []
   \<and> validate_example (PyStr []) = Inl InvalidToken
   \<and> authenticate header_example validate_example user_example empty_cookie_request
       = Inr (Some (''alice'', ''good''))
   \<and> authenticate header_example validate_example user_example
       (empty_cookie_request\<lparr>META := [''HTTP_AUTHORIZATION'' \<mapsto> ''Bearer stale'']\<rparr>)
       = Inl InvalidToken"
  by (simp add: authenticate_def empty_cookie_request_def validate_example_def header_example_def)

text \<open>
  Claim C4. When the Token Issuer answers an issuance request with a response whose status is
  not OK, \<^verbatim>\<open>CookieTokenObtainPairView.post\<close> returns that very response: the same body, the
  same status and the same cookie jar, so the relay sets no cookie on it.
\<close>

theorem issue_failure_passes_through:
  assumes "super_post request = Inr response"
      and "status_code response \<noteq> HTTPStatus_OK"
  shows "CookieTokenObtainPairView_post DEBUG super_post request = Inr response"
  using assms by (simp add: CookieTokenObtainPairView_post_def obtain_pair_relay_non_ok)

text \<open>
  The theorem of C4 at an issuer that refuses the credentials with status 401.
\<close>

theorem issue_failure_passes_through_witness:
  "CookieTokenObtainPairView_post False issuer_rejects login_request
   = Inr \<lparr>status_code = 401,
          response_data = [''detail'' \<mapsto> PyStr ''No active account''],
          cookies = Map.empty\<rparr>"
  using issue_failure_passes_through [of issuer_rejects login_request
     "\<lparr>status_code = 401,
          response_data = [''detail'' \<mapsto> PyStr ''No active account''],
          cookies = Map.empty\<rparr>" False]
  by (simp add: issuer_rejects_def HTTPStatus_OK_def)

text \<open>
  Claim C5, as amended. When the request carries a non-empty \<open>refresh_token\<close> cookie and
  its body is a mapping that takes item assignment (a plain dictionary, as a JSON object or
  an absent body gives, or a mutable \<^verbatim>\<open>QueryDict\<close>), the request handed to the Token Issuer
  holds the cookie's value under the body key \<open>refresh\<close>, whatever the body held there, and
  is otherwise the request received; when the cookie is absent or empty, the request is
  forwarded as it is. \<^verbatim>\<open>CookieTokenRefreshView.post\<close> calls the issuer on that forwarded
  request.
\<close>

theorem refresh_forwards_cookie_token:
  "(\<forall>tok d. COOKIES request ''refresh_token'' = Some tok \<and> tok \<noteq> []
        \<and> request_data request = Dict d \<longrightarrow>
      refresh_forwarded request =
        Inr (request\<lparr>request_data := Dict (d(''refresh'' \<mapsto> PyStr tok))\<rparr>))
   \<and> (\<forall>tok d. COOKIES request ''refresh_token'' = Some tok \<and> tok \<noteq> []
        \<and> request_data request = QueryDict True d \<longrightarrow>
      refresh_forwarded request =
        Inr (request\<lparr>request_data := QueryDict True (d(''refresh'' \<mapsto> PyStr tok))\<rparr>))
   \<and> (COOKIES request ''refresh_token'' = None \<or> COOKIES request ''refresh_token'' = Some [] \<longrightarrow>
        refresh_forwarded request = Inr request)
   \<and> (\<forall>request'. refresh_forwarded request = Inr request' \<longrightarrow>
        CookieTokenRefreshView_post DEBUG super_post request =
          (case super_post request' of
             Inl e \<Rightarrow> Inl e
           | Inr response \<Rightarrow> Inr (refresh_relay DEBUG response)))"
  by (auto simp add: refresh_forwarded_cookie refresh_forwarded_no_cookie dict_setitem_def
      CookieTokenRefreshView_post_def)

text \<open>
  The theorem of C5 at a request whose cookie \<open>R1\<close> overrides the \<open>R0\<close> of its body, and at
  a request without cookies.
\<close>

theorem refresh_forwards_cookie_token_witness:
  "refresh_forwarded cookie_request =
     Inr (cookie_request\<lparr>request_data :=
            Dict [''token'' \<mapsto> PyStr ''T0'', ''refresh'' \<mapsto> PyStr ''R1'']\<rparr>)
   \<and> data_lookup (request_data cookie_request) ''refresh'' = Some (PyStr ''R0'')
   \<and> refresh_forwarded login_request = Inr login_request
   \<and> (\<exists>r. CookieTokenRefreshView_post False issuer_rotates cookie_request = Inr r
          \<and> status_code r = 200)"
proof -
  have cookie: "COOKIES cookie_request ''refresh_token'' = Some ''R1''"
    and body: "request_data cookie_request =
                 Dict [''token'' \<mapsto> PyStr ''T0'', ''refresh'' \<mapsto> PyStr ''R0'']"
    and none: "COOKIES login_request ''refresh_token'' = None"
    by (simp_all add: cookie_request_def login_request_def)
  have forwarded: "refresh_forwarded cookie_request =
     Inr (cookie_request\<lparr>request_data :=
            Dict [''token'' \<mapsto> PyStr ''T0'', ''refresh'' \<mapsto> PyStr ''R1'']\<rparr>)"
    using refresh_forwards_cookie_token [of cookie_request False issuer_rotates] cookie body
    by simp
  have unchanged: "refresh_forwarded login_request = Inr login_request"
    using refresh_forwards_cookie_token [of login_request False issuer_rotates] none
    by simp
  have post: "\<exists>r. CookieTokenRefreshView_post False issuer_rotates cookie_request = Inr r
          \<and> status_code r = 200"
    using refresh_forwards_cookie_token [of cookie_request False issuer_rotates] forwarded
    by (simp add: issuer_rotates_def refresh_relay_status)
  show ?thesis
    using forwarded unchanged post by (simp add: cookie_request_def)
qed

text \<open>
  Claim C5 as stated fails for a \<open>refresh_token\<close> cookie that is present and is the empty
  string: \<^verbatim>\<open>if refresh_token:\<close> (line 53) skips the injection, and the body's own \<open>refresh\<close>
  value is forwarded, not the cookie's.
\<close>

theorem refresh_empty_cookie_counterexample:
  "COOKIES empty_cookie_request ''refresh_token'' = Some []
   \<and> refresh_forwarded empty_cookie_request = Inr empty_cookie_request
   \<and> data_lookup (request_data empty_cookie_request) ''refresh'' = Some (PyStr ''R0'')
   \<and> data_lookup (request_data empty_cookie_request) ''refresh'' \<noteq> Some (PyStr [])"
  by (simp add: refresh_forwarded_def empty_cookie_request_def)

text \<open>
  Claim C6, as amended. When the request carries a non-empty \<open>access_token\<close> cookie and its
  body is a mapping that takes item assignment (a plain dictionary, as a JSON object or an
  absent body gives, or a mutable \<^verbatim>\<open>QueryDict\<close>), the request handed to the Token Issuer
  holds the cookie's value under the body key \<open>token\<close>, whatever the body held there, and
  is otherwise the request received; when the cookie is absent or empty, the request is
  forwarded as it is; and whenever the request reaches the issuer,
  \<^verbatim>\<open>CookieTokenVerifyView.post\<close> returns what the issuer returns on the forwarded request,
  be it a response of any status or an exception, with nothing added or changed.
\<close>

theorem verify_forwards_cookie_token:
  "(\<forall>tok d. COOKIES request ''access_token'' = Some tok \<and> tok \<noteq> []
        \<and> request_data request = Dict d \<longrightarrow>
      verify_forwarded request =
        Inr (request\<lparr>request_data := Dict (d(''token'' \<mapsto> PyStr tok))\<rparr>))
   \<and> (\<forall>tok d. COOKIES request ''access_token'' = Some tok \<and> tok \<noteq> []
        \<and> request_data request = QueryDict True d \<longrightarrow>
      verify_forwarded request =
        Inr (request\<lparr>request_data := QueryDict True (d(''token'' \<mapsto> PyStr tok))\<rparr>))
   \<and> (COOKIES request ''access_token'' = None \<or> COOKIES request ''access_token'' = Some [] \<longrightarrow>
        verify_forwarded request = Inr request)
   \<and> (\<forall>request'. verify_forwarded request = Inr request' \<longrightarrow>
        CookieTokenVerifyView_post super_post request = super_post request')"
  by (auto simp add: verify_forwarded_cookie verify_forwarded_no_cookie dict_setitem_def
      CookieTokenVerifyView_post_def)

text \<open>
  The theorem of C6 at a request whose cookie overrides the \<open>T0\<close> of its body, verified by
  an issuer that answers with status 401, and at a request without cookies.
\<close>

theorem verify_forwards_cookie_token_witness:
  "verify_forwarded cookie_request =
     Inr (cookie_request\<lparr>request_data :=
            Dict [''token'' \<mapsto> PyStr ''stale'', ''refresh'' \<mapsto> PyStr ''R0'']\<rparr>)
   \<and> data_lookup (request_data cookie_request) ''token'' = Some (PyStr ''T0'')
   \<and> verify_forwarded login_request = Inr login_request
   \<and> CookieTokenVerifyView_post issuer_rejects cookie_request =
       Inr \<lparr>status_code = 401,
            response_data = [''detail'' \<mapsto> PyStr ''No active account''],
            cookies = Map.empty\<rparr>"
proof -
  have cookie: "COOKIES cookie_request ''access_token'' = Some ''stale''"
    and body: "request_data cookie_request =
                 Dict [''token'' \<mapsto> PyStr ''T0'', ''refresh'' \<mapsto> PyStr ''R0'']"
    and none: "COOKIES login_request ''access_token'' = None"
    by (simp_all add: cookie_request_def login_request_def)
  have forwarded: "verify_forwarded cookie_request =
     Inr (cookie_request\<lparr>request_data :=
            Dict [''token'' \<mapsto> PyStr ''stale'', ''refresh'' \<mapsto> PyStr ''R0'']\<rparr>)"
    using verify_forwards_cookie_token [of cookie_request issuer_rejects] cookie body
    by (simp add: fun_upd_twist)
  have unchanged: "verify_forwarded login_request = Inr login_request"
    using verify_forwards_cookie_token [of login_request issuer_rejects] none
    by simp
  have post: "CookieTokenVerifyView_post issuer_rejects cookie_request =
       Inr \<lparr>status_code = 401,
            response_data = [''detail'' \<mapsto> PyStr ''No active account''],
            cookies = Map.empty\<rparr>"
    using verify_forwards_cookie_token [of cookie_request issuer_rejects] forwarded
    by (simp add: issuer_rejects_def)
  show ?thesis
    using forwarded unchanged post by (simp add: cookie_request_def)
qed

text \<open>
  Claim C6 as stated fails for an \<open>access_token\<close> cookie that is present and is the empty
  string: \<^verbatim>\<open>if access_token:\<close> (line 84) skips the injection, and the body's own \<open>token\<close>
  value is forwarded.
\<close>

theorem verify_empty_cookie_counterexample:
  "COOKIES empty_cookie_request ''access_token'' = Some []
   \<and> verify_forwarded empty_cookie_request = Inr empty_cookie_request
   \<and> data_lookup (request_data empty_cookie_request) ''token'' = Some (PyStr ''T0'')
   \<and> data_lookup (request_data empty_cookie_request) ''token'' \<noteq> Some (PyStr [])"
  by (simp add: verify_forwarded_def empty_cookie_request_def)

text \<open>
  Claim C7. The cookie jar of the response returned by Issue and by Refresh is the jar of the
  issuer's response but for the token cookies the relay writes, and each cookie it writes is
  \<open>httponly\<close>, \<open>secure\<close> exactly when \<open>DEBUG\<close> is off, with \<open>samesite\<close> \<open>Strict\<close>, and
  with \<open>max_age\<close> 3600 for \<open>access_token\<close> and 86400 for \<open>refresh_token\<close>. A Refresh that
  raises before the issuer is called returns no response, and so writes no cookie.
\<close>

theorem relay_cookies_have_fixed_attributes:
  "(\<forall>response. super_post request = Inr response \<longrightarrow>
      (\<exists>r. CookieTokenObtainPairView_post DEBUG super_post request = Inr r
         \<and> (\<forall>key. cookies r key =
               (if status_code response = HTTPStatus_OK \<and> key = ''access_token''
                   \<and> truthy (dict_get (response_data response) ''access'')
                then Some (SetCookie
                       \<lparr>cookie_value = dict_get (response_data response) ''access'',
                        httponly = True, secure = (\<not> DEBUG), samesite = ''Strict'',
                        max_age = 3600\<rparr>)
                else if status_code response = HTTPStatus_OK \<and> key = ''refresh_token''
                   \<and> truthy (dict_get (response_data response) ''refresh'')
                then Some (SetCookie
                       \<lparr>cookie_value = dict_get (response_data response) ''refresh'',
                        httponly = True, secure = (\<not> DEBUG), samesite = ''Strict'',
                        max_age = 86400\<rparr>)
                else cookies response key))))
   \<and> (\<forall>request' response. refresh_forwarded request = Inr request'
         \<and> super_post request' = Inr response \<longrightarrow>
      (\<exists>r. CookieTokenRefreshView_post DEBUG super_post request = Inr r
         \<and> (\<forall>key. cookies r key =
               (if status_code response = HTTPStatus_OK \<and> key = ''access_token''
                   \<and> truthy (dict_get (response_data response) ''access'')
                then Some (SetCookie
                       \<lparr>cookie_value = dict_get (response_data response) ''access'',
                        httponly = True, secure = (\<not> DEBUG), samesite = ''Strict'',
                        max_age = 3600\<rparr>)
                else cookies response key))))
   \<and> (\<forall>e. refresh_forwarded request = Inl e \<longrightarrow>
        CookieTokenRefreshView_post DEBUG super_post request = Inl e)"
proof (intro conjI allI impI)
  fix response
  assume "super_post request = Inr response"
  then have post: "CookieTokenObtainPairView_post DEBUG super_post request =
      Inr (obtain_pair_relay DEBUG response)"
    by (simp add: CookieTokenObtainPairView_post_def)
  show "\<exists>r. CookieTokenObtainPairView_post DEBUG super_post request = Inr r
         \<and> (\<forall>key. cookies r key =
               (if status_code response = HTTPStatus_OK \<and> key = ''access_token''
                   \<and> truthy (dict_get (response_data response) ''access'')
                then Some (SetCookie
                       \<lparr>cookie_value = dict_get (response_data response) ''access'',
                        httponly = True, secure = (\<not> DEBUG), samesite = ''Strict'',
                        max_age = 3600\<rparr>)
                else if status_code response = HTTPStatus_OK \<and> key = ''refresh_token''
                   \<and> truthy (dict_get (response_data response) ''refresh'')
                then Some (SetCookie
                       \<lparr>cookie_value = dict_get (response_data response) ''refresh'',
                        httponly = True, secure = (\<not> DEBUG), samesite = ''Strict'',
                        max_age = 86400\<rparr>)
                else cookies response key))"
  proof (cases "status_code response = HTTPStatus_OK")
    case True
    then show ?thesis
      unfolding post by (simp add: obtain_pair_relay_cookies)
  next
    case False
    then show ?thesis
      unfolding post by (simp add: obtain_pair_relay_non_ok)
  qed
next
  fix request' response
  assume "refresh_forwarded request = Inr request' \<and> super_post request' = Inr response"
  then have post: "CookieTokenRefreshView_post DEBUG super_post request =
      Inr (refresh_relay DEBUG response)"
    by (simp add: refresh_post_forwarded)
  show "\<exists>r. CookieTokenRefreshView_post DEBUG super_post request = Inr r
         \<and> (\<forall>key. cookies r key =
               (if status_code response = HTTPStatus_OK \<and> key = ''access_token''
                   \<and> truthy (dict_get (response_data response) ''access'')
                then Some (SetCookie
                       \<lparr>cookie_value = dict_get (response_data response) ''access'',
                        httponly = True, secure = (\<not> DEBUG), samesite = ''Strict'',
                        max_age = 3600\<rparr>)
                else cookies response key))"
  proof (cases "status_code response = HTTPStatus_OK")
    case True
    then show ?thesis
      unfolding post by (simp add: refresh_relay_cookies)
  next
    case False
    then show ?thesis
      unfolding post by (simp add: refresh_relay_non_ok)
  qed
next
  fix e
  assume "refresh_forwarded request = Inl e"
  then show "CookieTokenRefreshView_post DEBUG super_post request = Inl e"
    by (simp add: CookieTokenRefreshView_post_def)
qed

text \<open>
  The theorem of C7 at an issuance in debug mode and at a refresh out of debug mode.
\<close>

theorem relay_cookies_have_fixed_attributes_witness:
  "(\<exists>r. CookieTokenObtainPairView_post True issuer_grants login_request = Inr r
      \<and> cookies r ''access_token'' = Some (SetCookie
           \<lparr>cookie_value = PyStr ''A1'', httponly = True, secure = False,
            samesite = ''Strict'', max_age = 3600\<rparr>)
      \<and> cookies r ''refresh_token'' = Some (SetCookie
           \<lparr>cookie_value = PyStr ''R1'', httponly = True, secure = False,
            samesite = ''Strict'', max_age = 86400\<rparr>)
      \<and> cookies r ''csrftoken'' = None)
   \<and> (\<exists>r. CookieTokenRefreshView_post False issuer_rotates refresh_cookie_request = Inr r
      \<and> cookies r ''access_token'' = Some (SetCookie
           \<lparr>cookie_value = PyStr ''A2'', httponly = True, secure = True,
            samesite = ''Strict'', max_age = 3600\<rparr>)
      \<and> cookies r ''refresh_token'' = None)"
proof -
  let ?granted = "\<lparr>status_code = 200,
      response_data = [''access'' \<mapsto> PyStr ''A1'', ''refresh'' \<mapsto> PyStr ''R1''],
      cookies = Map.empty\<rparr>"
  let ?rotated = "\<lparr>status_code = 200,
      response_data = [''access'' \<mapsto> PyStr ''A2'', ''refresh'' \<mapsto> PyStr ''R2''],
      cookies = Map.empty\<rparr>"
  let ?forwarded = "refresh_cookie_request\<lparr>request_data := Dict [''refresh'' \<mapsto> PyStr ''R1'']\<rparr>"
  have issue: "issuer_grants login_request = Inr ?granted"
    by (simp add: issuer_grants_def)
  have refresh: "refresh_forwarded refresh_cookie_request = Inr ?forwarded
      \<and> issuer_rotates ?forwarded = Inr ?rotated"
    by (simp add: refresh_cookie_request_forwarded issuer_rotates_def)
  from relay_cookies_have_fixed_attributes [of issuer_grants login_request True] issue
  obtain r1 where r1: "CookieTokenObtainPairView_post True issuer_grants login_request = Inr r1"
    and c1: "\<And>key. cookies r1 key =
               (if status_code ?granted = HTTPStatus_OK \<and> key = ''access_token''
                   \<and> truthy (dict_get (response_data ?granted) ''access'')
                then Some (SetCookie
                       \<lparr>cookie_value = dict_get (response_data ?granted) ''access'',
                        httponly = True, secure = (\<not> True), samesite = ''Strict'',
                        max_age = 3600\<rparr>)
                else if status_code ?granted = HTTPStatus_OK \<and> key = ''refresh_token''
                   \<and> truthy (dict_get (response_data ?granted) ''refresh'')
                then Some (SetCookie
                       \<lparr>cookie_value = dict_get (response_data ?granted) ''refresh'',
                        httponly = True, secure = (\<not> True), samesite = ''Strict'',
                        max_age = 86400\<rparr>)
                else cookies ?granted key)"
    by blast
  from relay_cookies_have_fixed_attributes [of issuer_rotates refresh_cookie_request False] refresh
  obtain r2 where
        r2: "CookieTokenRefreshView_post False issuer_rotates refresh_cookie_request = Inr r2"
    and c2: "\<And>key. cookies r2 key =
               (if status_code ?rotated = HTTPStatus_OK \<and> key = ''access_token''
                   \<and> truthy (dict_get (response_data ?rotated) ''access'')
                then Some (SetCookie
                       \<lparr>cookie_value = dict_get (response_data ?rotated) ''access'',
                        httponly = True, secure = (\<not> False), samesite = ''Strict'',
                        max_age = 3600\<rparr>)
                else cookies ?rotated key)"
    by blast
  show ?thesis
    unfolding r1 r2 by (simp add: c1 c2 HTTPStatus_OK_def)
qed

text \<open>
  Claim C8, as amended. For every \<open>POST\<close> request that the framework's checks ahead of the
  body (authentication among them) let through, whatever cookies the request carries, the
  response of the logout view deletes the \<open>access_token\<close> and the \<open>refresh_token\<close> cookie,
  has status 200 and the body \<open>{detail: Logged out}\<close>; and the body changes no server-side
  state: the state after the view is the one those checks left.
\<close>

theorem logout_clears_both_cookies:
  assumes "initial db request = (None, db')"
      and "http_method request = ''POST''"
  shows "logout_view initial handle_exception options db request =
           (\<lparr>status_code = 200,
             response_data = [''detail'' \<mapsto> PyStr ''Logged out''],
             cookies = [''access_token'' \<mapsto> DeleteCookie, ''refresh_token'' \<mapsto> DeleteCookie]\<rparr>,
            db')
       \<and> status_code (fst (logout_view initial handle_exception options db request))
           = HTTPStatus_OK"
  using assms
  by (simp add: logout_view_def AllowAny_def logout_def Response_def delete_cookie_def
      HTTPStatus_OK_def)

text \<open>
  The theorem of C8 at a request with both token cookies, the stale one swallowed by the
  cookie authenticator, and at a request without cookies: the same response.
\<close>

theorem logout_clears_both_cookies_witness:
  "initial_example 7 cookie_request = (None, 7)
   \<and> logout_view initial_example handle_exception_example options_example 7 cookie_request =
       (\<lparr>status_code = 200,
         response_data = [''detail'' \<mapsto> PyStr ''Logged out''],
         cookies = [''access_token'' \<mapsto> DeleteCookie, ''refresh_token'' \<mapsto> DeleteCookie]\<rparr>,
        7)
   \<and> logout_view initial_example handle_exception_example options_example 7 login_request =
       (\<lparr>status_code = 200,
         response_data = [''detail'' \<mapsto> PyStr ''Logged out''],
         cookies = [''access_token'' \<mapsto> DeleteCookie, ''refresh_token'' \<mapsto> DeleteCookie]\<rparr>,
        7)"
proof -
  have passes: "initial_example 7 cookie_request = (None, 7)"
      "initial_example 7 login_request = (None, 7)"
    by (simp_all add: initial_example_def authenticate_def cookie_request_def login_request_def
        validate_example_def header_example_def)
  have post: "http_method cookie_request = ''POST''" "http_method login_request = ''POST''"
    by (simp_all add: cookie_request_def login_request_def)
  show ?thesis
    using logout_clears_both_cookies
            [of initial_example 7 cookie_request 7 handle_exception_example options_example]
          logout_clears_both_cookies
            [of initial_example 7 login_request 7 handle_exception_example options_example]
          passes post
    by simp
qed

text \<open>
  Claim C8 as stated fails for a logout request that the authentication step refuses: with
  the cookie authenticator configured, a request without cookies whose header bears a stale
  token makes the header-based resolution raise \<open>InvalidToken\<close> before the body of
  \<^verbatim>\<open>logout\<close> runs. The view answers with the error response of status 401, which deletes
  no cookie.
\<close>

theorem logout_refused_request_counterexample:
  "http_method stale_bearer_request = ''POST''
   \<and> initial_example 7 stale_bearer_request = (Some InvalidToken, 7)
   \<and> logout_view initial_example handle_exception_example options_example 7 stale_bearer_request =
       (\<lparr>status_code = 401,
         response_data = [''detail'' \<mapsto> PyStr ''refused''],
         cookies = Map.empty\<rparr>,
        7)"
  by (simp add: logout_view_def initial_example_def authenticate_def stale_bearer_request_def
      header_example_def handle_exception_example_def)

text \<open>
  Claim C9. When the \<open>access_token\<close> cookie of a request is the empty string,
  \<^verbatim>\<open>authenticate\<close> returns the result of the header-based resolution, as it does for the
  request without that cookie, and \<^verbatim>\<open>CookieTokenVerifyView.post\<close> hands the request to the
  issuer unchanged: the empty value is not injected into the body.
\<close>

theorem empty_access_cookie_is_as_absent:
  assumes "COOKIES request ''access_token'' = Some []"
  shows "authenticate super_authenticate get_validated_token get_user request =
           super_authenticate request
       \<and> authenticate super_authenticate get_validated_token get_user
           (request\<lparr>COOKIES := (COOKIES request)(''access_token'' := None)\<rparr>) =
           super_authenticate (request\<lparr>COOKIES := (COOKIES request)(''access_token'' := None)\<rparr>)
       \<and> verify_forwarded request = Inr request
       \<and> CookieTokenVerifyView_post super_post request = super_post request"
  using assms
  by (simp add: authenticate_def verify_forwarded_def CookieTokenVerifyView_post_def)

text \<open>
  The theorem of C9 at a request with empty token cookies and a bearer token in its header.
\<close>

theorem empty_access_cookie_is_as_absent_witness:
  "COOKIES empty_cookie_request ''access_token'' = Some []
   \<and> authenticate header_example validate_example user_example empty_cookie_request =
       Inr (Some (''alice'', ''good''))
   \<and> authenticate header_example validate_example user_example
       (empty_cookie_request\<lparr>COOKIES := (COOKIES empty_cookie_request)(''access_token'' := None)\<rparr>) =
       Inr (Some (''alice'', ''good''))
   \<and> verify_forwarded empty_cookie_request = Inr empty_cookie_request
   \<and> data_lookup (request_data empty_cookie_request) ''token'' = Some (PyStr ''T0'')
   \<and> CookieTokenVerifyView_post issuer_rejects empty_cookie_request =
       issuer_rejects empty_cookie_request"
  using empty_access_cookie_is_as_absent
          [of empty_cookie_request header_example validate_example user_example issuer_rejects]
  by (simp add: empty_cookie_request_def header_example_def)

text \<open>
  Claim C10. When the Token Issuer answers with status OK, Issue and Refresh return a response
  (they raise nothing); a token field that is missing or holds a falsy value (\<^verbatim>\<open>None\<close>, the
  empty string) leaves the cookie of that token as the issuer's response had it (the relay
  sets none); and the body is stripped of the token fields the operation reads (\<open>access\<close> and
  \<open>refresh\<close> for Issue, \<open>access\<close> for Refresh) and carries the success \<open>detail\<close>.
\<close>

theorem missing_token_sets_no_cookie:
  "(\<forall>response. super_post request = Inr response \<and> status_code response = HTTPStatus_OK \<longrightarrow>
      (\<exists>r. CookieTokenObtainPairView_post DEBUG super_post request = Inr r
         \<and> (\<not> truthy (dict_get (response_data response) ''access'') \<longrightarrow>
               cookies r ''access_token'' = cookies response ''access_token'')
         \<and> (\<not> truthy (dict_get (response_data response) ''refresh'') \<longrightarrow>
               cookies r ''refresh_token'' = cookies response ''refresh_token'')
         \<and> response_data r ''access'' = None
         \<and> response_data r ''refresh'' = None
         \<and> response_data r ''detail'' = Some (PyStr ''Login successful'')))
   \<and> (\<forall>request' response. refresh_forwarded request = Inr request'
         \<and> super_post request' = Inr response
         \<and> status_code response = HTTPStatus_OK \<longrightarrow>
      (\<exists>r. CookieTokenRefreshView_post DEBUG super_post request = Inr r
         \<and> (\<not> truthy (dict_get (response_data response) ''access'') \<longrightarrow>
               cookies r = cookies response)
         \<and> response_data r ''access'' = None
         \<and> response_data r ''detail'' = Some (PyStr ''Token refreshed'')))"
  by (auto simp add: CookieTokenObtainPairView_post_def refresh_post_forwarded
      obtain_pair_relay_data obtain_pair_relay_cookies refresh_relay_data refresh_relay_cookies
      fun_eq_iff)

text \<open>
  The theorem of C10 at an issuance whose response has no access token and at a refresh whose
  response has an empty one.
\<close>

theorem missing_token_sets_no_cookie_witness:
  "(\<exists>r. CookieTokenObtainPairView_post False issuer_omits_access login_request = Inr r
      \<and> cookies r ''access_token'' = None
      \<and> response_data r ''access'' = None
      \<and> response_data r ''refresh'' = None
      \<and> response_data r ''detail'' = Some (PyStr ''Login successful''))
   \<and> (\<exists>r. CookieTokenRefreshView_post False issuer_empty_access login_request = Inr r
      \<and> cookies r = Map.empty
      \<and> response_data r ''access'' = None
      \<and> response_data r ''detail'' = Some (PyStr ''Token refreshed''))"
  using missing_token_sets_no_cookie [of issuer_omits_access login_request False]
        missing_token_sets_no_cookie [of issuer_empty_access login_request False]
  by (simp add: issuer_omits_access_def issuer_empty_access_def HTTPStatus_OK_def
      refresh_forwarded_def login_request_def)

end
